theory Spec2Isabelle
  imports Main
begin

section \<open>JavaScript strings and values\<close>

text \<open>
  A JavaScript string is a sequence of UTF-16 code units; a code unit is modelled by its
  number. \<open>js\<close> turns a literal of the theory into such a sequence (the literals
  used here are ASCII, where a character is one code unit).
\<close>

type_synonym jsstring = "nat list"

definition js :: "string \<Rightarrow> jsstring" where
  "js s = map of_char s"

text \<open>
  The values a dynamically typed argument can hold, and the values \<open>JSON.parse\<close>
  produces. A number is kept as an integer: the code modelled here only tests numbers
  for truthiness.
\<close>

datatype jsval =
    JUndefined
  | JNull
  | JBool bool
  | JNum int
  | JStr jsstring
  | JArr "jsval list"
  | JObj "(jsstring \<times> jsval) list"

text \<open>
  \<open>String.prototype.toLowerCase\<close>, on the Basic Latin and Latin-1 letters
  (A-Z, and the capital letters from U+00C0 to U+00DE apart from the multiplication sign
  U+00D7); every other code unit is left as it is.
\<close>

definition lower_unit :: "nat \<Rightarrow> nat" where
  "lower_unit c =
     (if 65 \<le> c \<and> c \<le> 90 then c + 32
      else if 192 \<le> c \<and> c \<le> 222 \<and> c \<noteq> 215 then c + 32
      else c)"

definition toLowerCase :: "jsstring \<Rightarrow> jsstring" where
  "toLowerCase s = map lower_unit s"

text \<open>
  The class \<open>\s\<close> of a regular expression, which is also what \<open>trim\<close> strips:
  the white space and line terminator code units of ECMAScript.
\<close>

definition isWhiteSpace :: "nat \<Rightarrow> bool" where
  "isWhiteSpace c \<longleftrightarrow>
     (9 \<le> c \<and> c \<le> 13) \<or> c = 32 \<or> c = 160 \<or> c = 5760 \<or>
     (8192 \<le> c \<and> c \<le> 8202) \<or> c = 8232 \<or> c = 8233 \<or> c = 8239 \<or>
     c = 8287 \<or> c = 12288 \<or> c = 65279"

definition trim :: "jsstring \<Rightarrow> jsstring" where
  "trim s = rev (dropWhile isWhiteSpace (rev (dropWhile isWhiteSpace s)))"

text \<open>\<open>s.startsWith(t)\<close> and \<open>s.includes(t)\<close>.\<close>

fun startsWith :: "jsstring \<Rightarrow> jsstring \<Rightarrow> bool" where
  "startsWith s [] = True"
| "startsWith [] (d # t) = False"
| "startsWith (c # s) (d # t) = (c = d \<and> startsWith s t)"

fun includes_str :: "jsstring \<Rightarrow> jsstring \<Rightarrow> bool" where
  "includes_str [] t = (t = [])"
| "includes_str (c # s) t = (startsWith (c # s) t \<or> includes_str s t)"

text \<open>
  \<open>s.split(sep)\<close> for a separator of one code unit: the pieces between the
  separators, so that a string without the separator (the empty string too) gives one
  piece.
\<close>

fun split :: "nat \<Rightarrow> jsstring \<Rightarrow> jsstring list" where
  "split sep [] = [[]]"
| "split sep (c # s) =
     (if c = sep then [] # split sep s
      else (case split sep s of
              [] \<Rightarrow> [[c]]
            | w # ws \<Rightarrow> (c # w) # ws))"

section \<open>The insertion-ordered \<open>Map\<close>\<close>

text \<open>
  A JavaScript \<open>Map\<close> iterates in insertion order, and setting a key that is
  present replaces its value in place. It is modelled by an association list.
\<close>

type_synonym ('k, 'v) jsmap = "('k \<times> 'v) list"

fun Map_set :: "('k, 'v) jsmap \<Rightarrow> 'k \<Rightarrow> 'v \<Rightarrow> ('k, 'v) jsmap" where
  "Map_set [] k v = [(k, v)]"
| "Map_set ((k', v') # m) k v =
     (if k' = k then (k, v) # m else (k', v') # Map_set m k v)"

definition Map_get :: "('k, 'v) jsmap \<Rightarrow> 'k \<Rightarrow> 'v option" where
  "Map_get m k = map_of m k"

definition Map_keys :: "('k, 'v) jsmap \<Rightarrow> 'k list" where
  "Map_keys m = map fst m"

definition new_Map :: "('k \<times> 'v) list \<Rightarrow> ('k, 'v) jsmap" where
  "new_Map entries = foldl (\<lambda>m (k, v). Map_set m k v) [] entries"

section \<open>Brand names: \<open>normalizeBrand\<close>\<close>

text \<open>
  The characters that the first replacement of \<open>normalizeBrand\<close> removes:
  apostrophe, registered sign, trade mark sign, ampersand, copyright sign, hyphen, full
  stop and comma.
\<close>

definition isBrandSymbol :: "nat \<Rightarrow> bool" where
  "isBrandSymbol c \<longleftrightarrow> c \<in> {39, 174, 8482, 38, 169, 45, 46, 44}"

fun normalizeBrand :: "jsval \<Rightarrow> jsstring" where
  "normalizeBrand (JStr brandName) =
     (if brandName = [] then []
      else trim (filter (\<lambda>c. \<not> isWhiteSpace c)
                  (filter (\<lambda>c. \<not> isBrandSymbol c) (toLowerCase brandName))))"
| "normalizeBrand v = []"

section \<open>The brand registry: \<open>loadBrands\<close>\<close>

record brand =
  name :: jsstring
  cashback :: nat

record brands_state =
  SUPPORTED_BRANDS_MAP :: "(jsstring, brand) jsmap"
  SUPPORTED_BRANDS_ARRAY :: "jsstring list"

text \<open>
  The lines of the payload after the header, trimmed, with every double quote removed,
  the empty ones dropped.
\<close>

definition brandNames :: "jsstring \<Rightarrow> jsstring list" where
  "brandNames csvText =
     filter (\<lambda>n. n \<noteq> [])
       (map (\<lambda>n. filter (\<lambda>c. c \<noteq> 34) (trim n)) (drop 1 (split 10 csvText)))"

text \<open>
  The payload is \<open>None\<close> when the fetch of the brand list or the reading of its text
  fails: the handler of \<open>loadBrands\<close> then installs the empty registry.
\<close>

definition loadBrands :: "jsstring option \<Rightarrow> brands_state" where
  "loadBrands payload =
     (case payload of
        None \<Rightarrow> \<lparr>SUPPORTED_BRANDS_MAP = [], SUPPORTED_BRANDS_ARRAY = []\<rparr>
      | Some csvText \<Rightarrow>
          (let brands = map (\<lambda>n. \<lparr>name = n, cashback = 33\<rparr>) (brandNames csvText);
               m = new_Map (map (\<lambda>b. (normalizeBrand (JStr (name b)), b)) brands)
           in \<lparr>SUPPORTED_BRANDS_MAP = m, SUPPORTED_BRANDS_ARRAY = Map_keys m\<rparr>))"

section \<open>The brand vote: \<open>determineBestBrandByVotes\<close>\<close>

text \<open>One candidate's vote for one supported key.\<close>

definition castVote ::
  "jsstring \<Rightarrow> jsstring \<Rightarrow> (jsstring, nat) jsmap \<Rightarrow> (jsstring, nat) jsmap" where
  "castVote supportedBrandName candidate voteCounts =
     (if normalizeBrand (JStr candidate) = supportedBrandName
      then Map_set voteCounts supportedBrandName
             ((case Map_get voteCounts supportedBrandName of None \<Rightarrow> 0 | Some n \<Rightarrow> n) + 1)
      else voteCounts)"

definition tallyVotes ::
  "jsstring list \<Rightarrow> jsstring list \<Rightarrow> (jsstring, nat) jsmap" where
  "tallyVotes keys candidates =
     fold (\<lambda>supportedBrandName voteCounts.
             fold (castVote supportedBrandName) candidates voteCounts) keys []"

text \<open>The loop that keeps the first entry with the highest number of votes.\<close>

definition maxStep ::
  "jsstring \<times> nat \<Rightarrow> nat \<times> jsstring option \<Rightarrow> nat \<times> jsstring option" where
  "maxStep e acc =
     (case e of (brandName, votes) \<Rightarrow>
        (case acc of (maxVotes, winningBrandName) \<Rightarrow>
           if votes > maxVotes then (votes, Some brandName)
           else (maxVotes, winningBrandName)))"

text \<open>
  The argument is \<open>None\<close> for a null candidate list. The last test of the source
  is a truthiness test of the winning key, which the empty string fails.
\<close>

definition determineBestBrandByVotes ::
  "(jsstring, brand) jsmap \<Rightarrow> jsstring list option \<Rightarrow> brand option" where
  "determineBestBrandByVotes registry candidates =
     (case candidates of
        None \<Rightarrow> None
      | Some cs \<Rightarrow>
          if cs = [] then None
          else
            (let voteCounts = tallyVotes (Map_keys registry) cs
             in if voteCounts = [] then None
                else
                  (case snd (fold maxStep voteCounts (0, None)) of
                     None \<Rightarrow> None
                   | Some winningBrandName \<Rightarrow>
                       if winningBrandName \<noteq> [] then Map_get registry winningBrandName
                       else None)))"

section \<open>The domain candidate: \<open>extractMainDomain\<close>\<close>

definition extractMainDomain :: "jsstring \<Rightarrow> jsstring option" where
  "extractMainDomain hostname =
     (if hostname = [] then None
      else
        (let domainParts = split 46 hostname
         in if length domainParts \<ge> 2
            then Some (domainParts ! (length domainParts - 2))
            else Some hostname))"

section \<open>Specification of the vote\<close>

text \<open>
  The number of candidates whose normalization is exactly the key \<open>k\<close>, and the key
  that a plurality vote with ties going to the earlier key elects: it has at least one
  vote, every key before it in the iteration order has strictly fewer votes, and no key
  after it has more.
\<close>

definition votesFor :: "jsstring list \<Rightarrow> jsstring \<Rightarrow> nat" where
  "votesFor candidates k = length (filter (\<lambda>c. normalizeBrand (JStr c) = k) candidates)"


text \<open>The entries of the vote map, in the order in which the tally inserts them.\<close>

definition voteEntries :: "jsstring list \<Rightarrow> jsstring list \<Rightarrow> (jsstring \<times> nat) list" where
  "voteEntries candidates keys =
     concat (map (\<lambda>k. if votesFor candidates k = 0 then [] else [(k, votesFor candidates k)]) keys)"

section \<open>Errors and dynamic values\<close>

datatype error = TypeError | SyntaxError

text \<open>Truthiness of a value, and the read of a property \<open>v[k]\<close>, which throws for
  \<open>null\<close> and \<open>undefined\<close> and is \<open>undefined\<close> for a key that is absent.\<close>

fun truthy :: "jsval \<Rightarrow> bool" where
  "truthy JUndefined = False"
| "truthy JNull = False"
| "truthy (JBool b) = b"
| "truthy (JNum n) = (n \<noteq> 0)"
| "truthy (JStr s) = (s \<noteq> [])"
| "truthy (JArr a) = True"
| "truthy (JObj ps) = True"

fun getProp :: "jsval \<Rightarrow> jsstring \<Rightarrow> error + jsval" where
  "getProp JUndefined k = Inl TypeError"
| "getProp JNull k = Inl TypeError"
| "getProp (JObj ps) k = Inr (case map_of ps k of None \<Rightarrow> JUndefined | Some v \<Rightarrow> v)"
| "getProp v k = Inr JUndefined"

text \<open>The optional read \<open>v?.[k]\<close> and the operator \<open>a || b\<close>.\<close>

definition optProp :: "jsval \<Rightarrow> jsstring \<Rightarrow> jsval" where
  "optProp v k = (case getProp v k of Inl e \<Rightarrow> JUndefined | Inr x \<Rightarrow> x)"

definition orElse :: "jsval \<Rightarrow> jsval \<Rightarrow> jsval" where
  "orElse a b = (if truthy a then a else b)"

text \<open>Sequencing of computations that may throw.\<close>

definition thenE :: "error + 'a \<Rightarrow> ('a \<Rightarrow> error + 'b) \<Rightarrow> error + 'b" where
  "thenE m f = (case m of Inl e \<Rightarrow> Inl e | Inr x \<Rightarrow> f x)"

text \<open>\<open>Array.prototype.some\<close>: it stops at the first element that passes.\<close>

fun some :: "('a \<Rightarrow> bool) \<Rightarrow> 'a list \<Rightarrow> bool" where
  "some p [] = False"
| "some p (x # xs) = (if p x then True else some p xs)"

section \<open>Regular expressions\<close>

text \<open>
  The constructs that the patterns of the detectors use: a character class, the empty
  pattern, the word boundary \<open>\b\<close>, sequence, alternative and the greedy star. A
  position of the match is the character before it, if any, and the rest of the subject.
  \<open>ends r p\<close> lists the positions at which a match of \<open>r\<close> started at \<open>p\<close> can
  end, in the order in which the backtracking matcher tries them.
\<close>

datatype rx = Chr "nat \<Rightarrow> bool" | Eps | Bnd | Seq rx rx | Alt rx rx | Star rx

type_synonym pos = "nat option \<times> jsstring"

text \<open>The star takes the subject as fuel: every iteration must consume a character.\<close>

fun star :: "(pos \<Rightarrow> pos list) \<Rightarrow> jsstring \<Rightarrow> pos \<Rightarrow> pos list" where
  "star f [] p = [p]"
| "star f (x # fuel) p =
     concat (map (star f fuel) (filter (\<lambda>q. snd q \<noteq> snd p) (f p))) @ [p]"

definition isWordChar :: "nat \<Rightarrow> bool" where
  "isWordChar c \<longleftrightarrow>
     (48 \<le> c \<and> c \<le> 57) \<or> (65 \<le> c \<and> c \<le> 90) \<or> c = 95 \<or> (97 \<le> c \<and> c \<le> 122)"

definition wordBefore :: "pos \<Rightarrow> bool" where
  "wordBefore p = (case fst p of None \<Rightarrow> False | Some c \<Rightarrow> isWordChar c)"

definition wordAfter :: "pos \<Rightarrow> bool" where
  "wordAfter p = (case snd p of [] \<Rightarrow> False | c # cs \<Rightarrow> isWordChar c)"

primrec ends :: "rx \<Rightarrow> pos \<Rightarrow> pos list" where
  "ends (Chr P) p = (case snd p of [] \<Rightarrow> [] | c # cs \<Rightarrow> if P c then [(Some c, cs)] else [])"
| "ends Eps p = [p]"
| "ends Bnd p = (if wordBefore p \<noteq> wordAfter p then [p] else [])"
| "ends (Seq a b) p = concat (map (ends b) (ends a p))"
| "ends (Alt a b) p = ends a p @ ends b p"
| "ends (Star a) p = star (ends a) (snd p) p"

text \<open>
  \<open>exec\<close>: the leftmost match, as its index and the matched text; \<open>test\<close>: whether
  there is one.
\<close>

fun exec_at :: "rx \<Rightarrow> nat option \<Rightarrow> jsstring \<Rightarrow> (nat \<times> jsstring) option" where
  "exec_at r prev [] = (case ends r (prev, []) of [] \<Rightarrow> None | q # qs \<Rightarrow> Some (0, []))"
| "exec_at r prev (c # cs) =
     (case ends r (prev, c # cs) of
        [] \<Rightarrow> map_option (\<lambda>(i, m). (Suc i, m)) (exec_at r (Some c) cs)
      | q # qs \<Rightarrow> Some (0, take (length (c # cs) - length (snd q)) (c # cs)))"

definition exec :: "rx \<Rightarrow> jsstring \<Rightarrow> (nat \<times> jsstring) option" where
  "exec r s = exec_at r None s"

definition test :: "rx \<Rightarrow> jsstring \<Rightarrow> bool" where
  "test r s = (exec r s \<noteq> None)"

text \<open>Building blocks of the patterns.\<close>

definition ch :: "nat \<Rightarrow> rx" where
  "ch c = Chr (\<lambda>x. x = c)"

text \<open>A character of a pattern with the flag \<open>i\<close>: a letter matches both its cases.\<close>

definition ci :: "nat \<Rightarrow> rx" where
  "ci c = Chr (\<lambda>x. x = c \<or> (97 \<le> c \<and> c \<le> 122 \<and> x + 32 = c) \<or> (65 \<le> c \<and> c \<le> 90 \<and> x = c + 32))"

definition lit :: "jsstring \<Rightarrow> rx" where
  "lit s = foldr (\<lambda>c r. Seq (ch c) r) s Eps"

definition lit_ci :: "jsstring \<Rightarrow> rx" where
  "lit_ci s = foldr (\<lambda>c r. Seq (ci c) r) s Eps"

definition plus :: "rx \<Rightarrow> rx" where
  "plus r = Seq r (Star r)"

definition opt :: "rx \<Rightarrow> rx" where
  "opt r = Alt r Eps"

definition digit :: rx where
  "digit = Chr (\<lambda>c. 48 \<le> c \<and> c \<le> 57)"

text \<open>\<open>[\d,]+\.?\d*\<close>, the amount that every price pattern ends with.\<close>

definition amount :: rx where
  "amount = Seq (plus (Chr (\<lambda>c. (48 \<le> c \<and> c \<le> 57) \<or> c = 44))) (Seq (opt (ch 46)) (Star digit))"

text \<open>A currency sign, \<open>\s*\<close> and the amount.\<close>

definition currencyPattern :: "jsstring \<Rightarrow> rx" where
  "currencyPattern sign = Seq (lit sign) (Seq (Star (Chr isWhiteSpace)) amount)"

text \<open>A label with the flag \<open>i\<close>, \<open>[:\s]+\<close> and the amount.\<close>

definition labelPattern :: "jsstring \<Rightarrow> rx" where
  "labelPattern label =
     Seq (lit_ci label) (Seq (plus (Chr (\<lambda>c. c = 58 \<or> isWhiteSpace c))) amount)"

section \<open>The document\<close>

text \<open>
  An element as the detectors read it. \<open>innerText\<close> is \<open>None\<close> on an element
  that has no such property (one that is not an HTML element), \<open>content\<close> is the
  attribute of a \<open>meta\<close> element and \<open>None\<close> elsewhere, and \<open>parsed\<close> is
  what \<open>JSON.parse\<close> gives for the text of the element, \<open>None\<close> when it throws
  a syntax error. The queries of the DOM are given by the answers they return.
\<close>

datatype element = Element
  (outerHTML: jsstring)
  (innerText: "jsstring option")
  (textContent: jsstring)
  (content: "jsstring option")
  (parsed: "jsval option")
  (width: nat)
  (height: nat)
  (el_querySelectorAll: "jsstring \<Rightarrow> element list")
  (closest: "jsstring \<Rightarrow> element option")
  (nextElementSibling: "element option")
  (parentElement: "element option")
  (firstElementChild: "element option")

text \<open>The document and the location of the window.\<close>

record page =
  body :: "element option"
  title :: jsstring
  querySelectorAll :: "jsstring \<Rightarrow> element list"
  href :: jsstring
  hostname :: jsstring

definition querySelector :: "page \<Rightarrow> jsstring \<Rightarrow> element option" where
  "querySelector doc selector =
     (case querySelectorAll doc selector of [] \<Rightarrow> None | e # es \<Rightarrow> Some e)"

text \<open>\<open>document.body.innerText\<close>, which throws when there is no body; a later
  call of a string method on an undefined text throws as well.\<close>

definition bodyInnerText :: "page \<Rightarrow> error + jsstring" where
  "bodyInnerText doc =
     (case body doc of
        None \<Rightarrow> Inl TypeError
      | Some b \<Rightarrow> (case innerText b of None \<Rightarrow> Inl TypeError | Some t \<Rightarrow> Inr t))"

text \<open>Whether \<open>e.content\<close> is truthy, for an element that may be absent.\<close>

definition hasContent :: "element option \<Rightarrow> bool" where
  "hasContent e =
     (case e of
        None \<Rightarrow> False
      | Some m \<Rightarrow> (case content m of None \<Rightarrow> False | Some c \<Rightarrow> c \<noteq> []))"

section \<open>The indicators of \<open>PdpDetector\<close>\<close>

definition pricePatterns :: "rx list" where
  "pricePatterns =
     [currencyPattern (js ''$''), currencyPattern [8364], currencyPattern [163],
      currencyPattern [165], currencyPattern [8377], currencyPattern (js ''R$''),
      Seq (plus digit) (Seq (ch 46) (Seq digit (Seq digit (Seq (Star (Chr isWhiteSpace))
        (Alt (lit (js ''USD'')) (Alt (lit (js ''EUR'')) (Alt (lit (js ''GBP''))
          (Alt (lit (js ''CAD'')) (lit (js ''AUD'')))))))))),
      labelPattern (js ''price''), labelPattern (js ''cost''), labelPattern (js ''msrp'')]"

definition actionButtons :: "jsstring list" where
  "actionButtons =
     [js ''add to cart'', js ''add to basket'', js ''add to bag'', js ''buy now'',
      js ''buy it now'', js ''purchase'', js ''add to wishlist'', js ''save for later'',
      js ''preorder'', js ''pre-order'', js ''notify me'', js ''out of stock'',
      js ''sold out'', js ''check availability'', js ''checkout'', js ''add-to-cart'',
      js ''add-to-basket'', js ''add-to-bag'', js ''addtocart'', js ''addtobasket'',
      js ''addtobag'', js ''add_to_cart'', js ''add_to_basket'', js ''add_to_bag'',
      js ''shop now'', js ''get it now'', js ''order now'', js ''reserve'',
      js ''add to list'', js ''coming soon'', js ''join waitlist'',
      js ''join the waitlist'', js ''get notified'']"

definition actionButtonAttributes :: "jsstring list" where
  "actionButtonAttributes =
     [js ''add-to-cart'', js ''addtocart'', js ''product-add'', js ''buy-now'',
      js ''add_to_cart'', js ''add-to-basket'', js ''addtobasket'', js ''add_to_basket'',
      js ''add-to-bag'', js ''addtobag'', js ''add_to_bag'', js ''buy-button'',
      js ''purchase-button'', js ''checkout'', js ''atc-button'', js ''atc_button'',
      js ''pdp-button'', js ''product-button'', js ''add-button'', js ''cart-button'']"

definition productMetadata :: "jsstring list" where
  "productMetadata =
     [js ''sku'', js ''model'', js ''upc'', js ''isbn'', js ''asin'', js ''product code'',
      js ''item number'', js ''part number'', js ''style'', js ''color'', js ''size'',
      js ''quantity'', js ''in stock'', js ''availability'', js ''ships from'',
      js ''sold by'', js ''fulfilled by'']"

text \<open>The last two indicators are the black and the white star.\<close>

definition reviewIndicators :: "jsstring list" where
  "reviewIndicators =
     [js ''reviews'', js ''ratings'', js ''stars'', js ''customer reviews'',
      js ''product reviews'', js ''rating'', js ''rated'', js ''out of 5'', [9733], [9734]]"

definition shippingKeywords :: "jsstring list" where
  "shippingKeywords =
     [js ''free shipping'', js ''shipping'', js ''delivery'', js ''ships in'',
      js ''ships within'', js ''estimated delivery'', js ''arrives'', js ''get it by'',
      js ''standard shipping'', js ''express shipping'', js ''overnight'',
      js ''expedited'', js ''prime delivery'', js ''in stock'', js ''ready to ship'',
      js ''usually ships'', js ''delivery options'', js ''shipping cost'',
      js ''shipping fee'', js ''delivery fee'', js ''ships from'', js ''fulfilled by'',
      js ''dispatched from'']"

definition productUrlPatterns :: "rx list" where
  "productUrlPatterns =
     [lit (js ''/product/''), lit (js ''/products/''), lit (js ''/item/''),
      lit (js ''/items/''), lit (js ''/p/''), lit (js ''/dp/''), lit (js ''/gp/product''),
      lit (js ''/itm/''), lit (js ''/ip/''),
      Seq (Chr (\<lambda>c. c = 45 \<or> c = 95)) (Seq (ch 112) (plus digit)),
      Seq (lit (js ''/sku'')) (Chr (\<lambda>c. c = 47 \<or> c = 45)),
      Seq (lit (js ''/pid'')) (Chr (\<lambda>c. c = 47 \<or> c = 45)),
      Seq (lit (js ''/prod'')) (plus digit),
      lit (js ''/article/''), lit (js ''/goods/'')]"

section \<open>The gate: \<open>detectActionButtons\<close>\<close>

text \<open>
  The text of the page is read with optional chaining and defaults to the empty string,
  so no step of the function throws (the handler of the source, which would answer
  false, is never entered).
\<close>

definition detectActionButtons :: "page \<Rightarrow> bool" where
  \<open>detectActionButtons doc =
     (let pageText =
            (case body doc of
               None \<Rightarrow> []
             | Some b \<Rightarrow> (case innerText b of None \<Rightarrow> [] | Some t \<Rightarrow> toLowerCase t))
      in if some (\<lambda>indicator. includes_str pageText indicator) actionButtons then True
         else
           some (\<lambda>element.
                   some (\<lambda>attrIndicator.
                           includes_str (toLowerCase (outerHTML element)) attrIndicator)
                     actionButtonAttributes)
             (querySelectorAll doc
                (js ''button, a, input[type="button"], input[type="submit"], [role="button"]'')))\<close>

section \<open>The ten signals\<close>

record structuredData =
  sd_found :: bool
  sd_hasOffer :: bool
  sd_productName :: jsval
  sd_brand :: jsval
  sd_price :: jsval

definition productRecord :: "jsval \<Rightarrow> jsval \<Rightarrow> structuredData" where
  "productRecord product offers =
     \<lparr>sd_found = True, sd_hasOffer = True,
      sd_productName = optProp product (js ''name''),
      sd_brand = orElse (optProp (optProp product (js ''brand'')) (js ''name''))
                   (optProp product (js ''brand'')),
      sd_price = optProp offers (js ''price'')\<rparr>"

text \<open>The callback of \<open>find\<close> over \<open>@graph\<close>: the first item that is a product
  with offers; reading a property of a null item throws.\<close>

fun findProduct :: "jsval list \<Rightarrow> error + structuredData option" where
  "findProduct [] = Inr None"
| "findProduct (item # items) =
     thenE (getProp item (js ''@type'')) (\<lambda>t.
       if t = JStr (js ''Product'')
       then thenE (getProp item (js ''offers'')) (\<lambda>offers.
              if truthy offers then Inr (Some (productRecord item offers))
              else findProduct items)
       else findProduct items)"

text \<open>The body of the \<open>try\<close> block, for one script element.\<close>

definition inspectScript :: "element \<Rightarrow> error + structuredData option" where
  "inspectScript script =
     (case parsed script of
        None \<Rightarrow> Inl SyntaxError
      | Some data \<Rightarrow>
          thenE (getProp data (js ''@type'')) (\<lambda>t.
            thenE (if t = JStr (js ''Product'') then getProp data (js ''offers'') else Inr JUndefined)
              (\<lambda>offers.
                 if t = JStr (js ''Product'') \<and> truthy offers
                 then Inr (Some (productRecord data offers))
                 else
                   thenE (getProp data (js ''@graph'')) (\<lambda>g.
                     case g of JArr items \<Rightarrow> findProduct items | _ \<Rightarrow> Inr None))))"

text \<open>The loop over the scripts: whatever one script throws is caught, and the loop
  goes on with the next script.\<close>

fun scanScripts :: "element list \<Rightarrow> structuredData" where
  "scanScripts [] =
     \<lparr>sd_found = False, sd_hasOffer = False, sd_productName = JUndefined,
      sd_brand = JUndefined, sd_price = JUndefined\<rparr>"
| "scanScripts (script # scripts) =
     (case inspectScript script of
        Inl e \<Rightarrow> scanScripts scripts
      | Inr None \<Rightarrow> scanScripts scripts
      | Inr (Some r) \<Rightarrow> r)"

definition detectStructuredData :: "page \<Rightarrow> structuredData" where
  \<open>detectStructuredData doc =
     scanScripts (querySelectorAll doc (js ''script[type="application/ld+json"]''))\<close>

record priceInfo =
  price_found :: bool
  price :: "jsstring option"
  currency :: "jsstring option"

definition currencyOf :: "jsstring \<Rightarrow> jsstring" where
  "currencyOf m =
     (if includes_str m (js ''$'') then js ''USD''
      else if includes_str m [8364] then js ''EUR''
      else if includes_str m [163] then js ''GBP''
      else if includes_str m [165] then js ''JPY''
      else if includes_str m [8377] then js ''INR''
      else if includes_str m (js ''R$'') then js ''BRL''
      else js ''USD'')"

definition getCurrencyFromMeta :: "page \<Rightarrow> jsstring" where
  \<open>getCurrencyFromMeta doc =
     (let currencyMeta =
            querySelector doc
              (js ''meta[property="product:price:currency"], meta[property="og:price:currency"]'')
      in case currencyMeta of
           None \<Rightarrow> js ''USD''
         | Some m \<Rightarrow> (case content m of
                        None \<Rightarrow> js ''USD''
                      | Some c \<Rightarrow> if c \<noteq> [] then c else js ''USD''))\<close>

fun matchPatterns :: "rx list \<Rightarrow> jsstring \<Rightarrow> jsstring option" where
  "matchPatterns [] pageText = None"
| "matchPatterns (pattern # patterns) pageText =
     (case exec pattern pageText of
        Some m \<Rightarrow> Some (snd m)
      | None \<Rightarrow> matchPatterns patterns pageText)"

fun priceFromMeta :: "page \<Rightarrow> jsstring list \<Rightarrow> priceInfo" where
  "priceFromMeta doc [] = \<lparr>price_found = False, price = None, currency = None\<rparr>"
| "priceFromMeta doc (selector # selectors) =
     (case querySelector doc selector of
        None \<Rightarrow> priceFromMeta doc selectors
      | Some metaTag \<Rightarrow>
          (case content metaTag of
             None \<Rightarrow> priceFromMeta doc selectors
           | Some c \<Rightarrow>
               if c \<noteq> []
               then \<lparr>price_found = True, price = Some c,
                     currency = Some (getCurrencyFromMeta doc)\<rparr>
               else priceFromMeta doc selectors))"

definition detectPrice :: "page \<Rightarrow> error + priceInfo" where
  \<open>detectPrice doc =
     thenE (bodyInnerText doc) (\<lambda>pageText.
       case matchPatterns pricePatterns pageText of
         Some m \<Rightarrow> Inr \<lparr>price_found = True, price = Some m, currency = Some (currencyOf m)\<rparr>
       | None \<Rightarrow>
           Inr (priceFromMeta doc
                  [js ''meta[property="product:price:amount"]'',
                   js ''meta[property="og:price:amount"]'',
                   js ''meta[itemprop="price"]'']))\<close>

definition detectProductMetadata :: "page \<Rightarrow> error + bool" where
  "detectProductMetadata doc =
     thenE (bodyInnerText doc) (\<lambda>t.
       Inr (some (\<lambda>metadata. includes_str (toLowerCase t) metadata) productMetadata))"

definition detectReviews :: "page \<Rightarrow> error + bool" where
  \<open>detectReviews doc =
     thenE (bodyInnerText doc) (\<lambda>t.
       let hasReviewText =
             some (\<lambda>indicator. includes_str (toLowerCase t) (toLowerCase indicator))
               reviewIndicators;
           starElements =
             querySelectorAll doc
               (js ''[class*="star"], [class*="rating"], [aria-label*="rating"]'')
       in Inr (hasReviewText \<or> length starElements > 0))\<close>

definition detectProductUrlPattern :: "page \<Rightarrow> bool" where
  "detectProductUrlPattern doc =
     some (\<lambda>pattern. test pattern (toLowerCase (href doc))) productUrlPatterns"

text \<open>The first selector whose element passes the test; \<open>innerText.includes\<close>
  throws on an element without \<open>innerText\<close>.\<close>

fun breadcrumbLoop :: "page \<Rightarrow> jsstring list \<Rightarrow> error + bool" where
  "breadcrumbLoop doc [] = Inr False"
| "breadcrumbLoop doc (selector # selectors) =
     (case querySelector doc selector of
        None \<Rightarrow> breadcrumbLoop doc selectors
      | Some element \<Rightarrow>
          (case innerText element of
             None \<Rightarrow> Inl TypeError
           | Some t \<Rightarrow>
               if includes_str t (js ''>'') \<or> includes_str t (js ''/'') then Inr True
               else breadcrumbLoop doc selectors))"

definition detectBreadcrumbs :: "page \<Rightarrow> error + bool" where
  \<open>detectBreadcrumbs doc =
     breadcrumbLoop doc
       [js ''[class*="breadcrumb"]'', js ''[id*="breadcrumb"]'',
        js ''nav[aria-label*="breadcrumb"]'', js ''nav ol'', js ''nav ul'']\<close>

definition detectProductSelectors :: "page \<Rightarrow> bool" where
  \<open>detectProductSelectors doc =
     some (\<lambda>selector. querySelector doc selector \<noteq> None)
       [js ''select[name*="size"], select[name*="color"], select[name*="quantity"]'',
        js ''[class*="size-selector"], [class*="color-selector"], [class*="qty-selector"]'',
        js ''input[type="number"][name*="qty"], input[type="number"][name*="quantity"]'',
        js ''[data-option-selector], [data-variant-selector]'',
        js ''.product-options, .product-variants'']\<close>

definition isLargeImage :: "element \<Rightarrow> bool" where
  "isLargeImage img \<longleftrightarrow> width img > 200 \<and> height img > 200"

definition detectProductImages :: "page \<Rightarrow> bool" where
  \<open>detectProductImages doc =
     (if some (\<lambda>selector.
                 case querySelector doc selector of
                   None \<Rightarrow> False
                 | Some gallery \<Rightarrow> length (el_querySelectorAll gallery (js ''img'')) > 0)
           [js ''[class*="product-gallery"]'', js ''[class*="image-gallery"]'',
            js ''[class*="product-images"]'', js ''[class*="product-photo"]'',
            js ''[class*="slider"][class*="product"]'', js ''[data-gallery], [data-zoom]'',
            js ''.product-image-container'', js ''.pdp-image'']
      then True
      else if some (\<lambda>selector.
                      case querySelector doc selector of
                        None \<Rightarrow> False
                      | Some img \<Rightarrow> isLargeImage img)
                [js ''img[class*="product-image"]'', js ''img[class*="product-photo"]'',
                 js ''img[alt*="product"]'', js ''img[itemprop="image"]'',
                 js ''main img[src*="/products/"]'', js ''main img[src*="/product/"]'',
                 js ''[data-product-image] img'']
      then True
      else if (case querySelector doc
                      (js ''button[class*="add-to-cart"], button[class*="add-to-bag"], [id*="add-to-cart"], [data-add-to-cart]'') of
                 None \<Rightarrow> False
               | Some addToCart \<Rightarrow>
                   (case closest addToCart (js ''section, article, [class*="product"], main'') of
                      None \<Rightarrow> False
                    | Some container \<Rightarrow>
                        some isLargeImage (el_querySelectorAll container (js ''img''))))
      then True
      else querySelector doc
             (js ''[class*="thumbnail"], [class*="thumb-nav"], [data-thumbnail]'') \<noteq> None)\<close>

definition hasLongText :: "element \<Rightarrow> bool" where
  "hasLongText e \<longleftrightarrow> length (trim (textContent e)) > 50"

definition detectProductDescription :: "page \<Rightarrow> bool" where
  \<open>detectProductDescription doc =
     (if some (\<lambda>selector.
                 case querySelector doc selector of
                   None \<Rightarrow> False
                 | Some element \<Rightarrow> hasLongText element)
           [js ''[class*="product-description"]'', js ''[class*="product-details"]'',
            js ''[class*="product-info"]'', js ''[id*="product-description"]'',
            js ''[id*="product-details"]'', js ''[data-product-description]'',
            js ''.description'', js ''#description'', js ''[itemprop="description"]'']
      then True
      else
        some (\<lambda>heading.
                let text = toLowerCase (textContent heading)
                in if includes_str text (js ''description'') \<or> includes_str text (js ''details'')
                      \<or> includes_str text (js ''about'')
                   then (case nextElementSibling heading of
                           None \<Rightarrow> False
                         | Some nextElement \<Rightarrow> hasLongText nextElement)
                   else False)
          (querySelectorAll doc (js ''h2, h3, h4'')))\<close>

definition detectShippingInfo :: "page \<Rightarrow> error + bool" where
  "detectShippingInfo doc =
     thenE (bodyInnerText doc) (\<lambda>t.
       Inr (some (\<lambda>keyword. includes_str (toLowerCase t) keyword) shippingKeywords))"

section \<open>The scorer: \<open>isProductPage\<close>\<close>

text \<open>
  The state of one scoring pass: the two locals of the source (the score and the names
  of the signals that were found) and, to observe the pass, the detector methods that
  were called after the gate, in call order, and the exception that ended the pass, if
  one did. Before any check the score is 0 and nothing was called.
\<close>

record scorer =
  confidenceScore :: nat
  signals :: "string list"
  evaluated :: "string list"
  thrown :: "error option"

definition initialScorer :: scorer where
  "initialScorer = \<lparr>confidenceScore = 0, signals = [], evaluated = [], thrown = None\<rparr>"

text \<open>
  One \<open>if\<close> block of the source: the detector \<open>method\<close> is called and, when
  its result passes the test of the block, the weight is added and the signal recorded.
  An exception of the detector leaves the function: no later block runs.
\<close>

definition signalCheck ::
  "string \<Rightarrow> error + bool \<Rightarrow> nat \<Rightarrow> string \<Rightarrow> scorer \<Rightarrow> scorer" where
  "signalCheck method outcome weight signal st =
     (if thrown st \<noteq> None then st
      else
        (case outcome of
           Inl e \<Rightarrow> st\<lparr>evaluated := evaluated st @ [method], thrown := Some e\<rparr>
         | Inr present \<Rightarrow>
             st\<lparr>evaluated := evaluated st @ [method],
                confidenceScore := confidenceScore st + (if present then weight else 0),
                signals := signals st @ (if present then [signal] else [])\<rparr>))"

definition passed :: "('a \<Rightarrow> bool) \<Rightarrow> error + 'a \<Rightarrow> error + bool" where
  "passed f m = (case m of Inl e \<Rightarrow> Inl e | Inr x \<Rightarrow> Inr (f x))"

definition scoreSignals :: "page \<Rightarrow> scorer" where
  "scoreSignals doc =
     (let s0 = initialScorer;
          s1 = signalCheck ''detectStructuredData''
                 (Inr (sd_found (detectStructuredData doc) \<and> sd_hasOffer (detectStructuredData doc)))
                 40 ''structuredData'' s0;
          s2 = signalCheck ''detectPrice'' (passed price_found (detectPrice doc)) 25 ''price'' s1;
          s3 = signalCheck ''detectProductImages'' (Inr (detectProductImages doc))
                 20 ''productImages'' s2;
          s4 = signalCheck ''detectProductUrlPattern'' (Inr (detectProductUrlPattern doc))
                 25 ''productUrl'' s3;
          s5 = signalCheck ''detectReviews'' (detectReviews doc) 15 ''reviews'' s4;
          s6 = signalCheck ''detectProductDescription'' (Inr (detectProductDescription doc))
                 15 ''description'' s5;
          s7 = signalCheck ''detectProductMetadata'' (detectProductMetadata doc)
                 10 ''metadata'' s6;
          s8 = signalCheck ''detectProductSelectors'' (Inr (detectProductSelectors doc))
                 10 ''selectors'' s7;
          s9 = signalCheck ''detectBreadcrumbs'' (detectBreadcrumbs doc) 15 ''breadcrumbs'' s8
      in signalCheck ''detectShippingInfo'' (detectShippingInfo doc) 15 ''shippingInfo'' s9)"

text \<open>The test \<open>confidenceScore >= 75\<close>.\<close>

definition meetsThreshold :: "nat \<Rightarrow> bool" where
  "meetsThreshold score \<longleftrightarrow> score \<ge> 75"

text \<open>
  The pass as a whole: what \<open>isProductPage\<close> returns or throws, with the state in
  which it is left. Without action buttons the function returns false at once.
\<close>

definition isProductPage_run :: "page \<Rightarrow> (error + bool) \<times> scorer" where
  "isProductPage_run doc =
     (if \<not> detectActionButtons doc then (Inr False, initialScorer)
      else
        (let st = scoreSignals doc
         in (case thrown st of
               Some e \<Rightarrow> (Inl e, st)
             | None \<Rightarrow> (Inr (meetsThreshold (confidenceScore st)), st))))"


section \<open>The diagnostic: \<open>debugDetection\<close>\<close>

record debugScoring =
  d_structuredData :: structuredData
  d_price :: priceInfo
  d_images :: bool
  d_urlPattern :: bool
  d_reviews :: bool
  d_description :: bool
  d_metadata :: bool
  d_selectors :: bool
  d_breadcrumbs :: bool
  d_shipping :: bool

record debugResults =
  d_url :: jsstring
  d_actionButtons_found :: bool
  d_actionButtons_pageText :: jsstring
  d_scoring :: debugScoring
  totalScore :: nat
  threshold :: nat
  isPDP :: bool

definition debugTotal :: "debugScoring \<Rightarrow> nat" where
  "debugTotal sc =
     (if sd_found (d_structuredData sc) \<and> sd_hasOffer (d_structuredData sc) then 40 else 0)
     + (if price_found (d_price sc) then 25 else 0)
     + (if d_images sc then 20 else 0)
     + (if d_urlPattern sc then 25 else 0)
     + (if d_reviews sc then 15 else 0)
     + (if d_description sc then 15 else 0)
     + (if d_metadata sc then 10 else 0)
     + (if d_selectors sc then 10 else 0)
     + (if d_breadcrumbs sc then 15 else 0)
     + (if d_shipping sc then 15 else 0)"

definition debugDetection :: "page \<Rightarrow> error + debugResults" where
  "debugDetection doc =
     (let found = detectActionButtons doc;
          pageText =
            (case body doc of
               None \<Rightarrow> js ''No page text''
             | Some b \<Rightarrow>
                 (case innerText b of
                    None \<Rightarrow> js ''No page text''
                  | Some t \<Rightarrow> if take 500 t \<noteq> [] then take 500 t else js ''No page text''));
          sd = detectStructuredData doc
      in thenE (detectPrice doc) (\<lambda>pr.
         thenE (detectReviews doc) (\<lambda>rv.
         thenE (detectProductMetadata doc) (\<lambda>md.
         thenE (detectBreadcrumbs doc) (\<lambda>bc.
         thenE (detectShippingInfo doc) (\<lambda>sh.
           let sc = \<lparr>d_structuredData = sd, d_price = pr,
                      d_images = detectProductImages doc,
                      d_urlPattern = detectProductUrlPattern doc,
                      d_reviews = rv,
                      d_description = detectProductDescription doc,
                      d_metadata = md,
                      d_selectors = detectProductSelectors doc,
                      d_breadcrumbs = bc, d_shipping = sh\<rparr>
           in Inr \<lparr>d_url = href doc, d_actionButtons_found = found,
                    d_actionButtons_pageText = pageText, d_scoring = sc,
                    totalScore = debugTotal sc, threshold = 75,
                    isPDP = (found \<and> debugTotal sc \<ge> 75)\<rparr>))))))"

section \<open>The brand detector on a page\<close>

definition extractProductTitle :: "page \<Rightarrow> jsstring" where
  \<open>extractProductTitle doc =
     (let h1Text =
            (case querySelector doc (js ''h1'') of
               None \<Rightarrow> []
             | Some h1Element \<Rightarrow> (case innerText h1Element of None \<Rightarrow> [] | Some t \<Rightarrow> trim t))
      in if h1Text \<noteq> [] then h1Text
         else
           (case querySelector doc (js ''meta[property="og:title"]'') of
              None \<Rightarrow> trim (title doc)
            | Some ogTitleElement \<Rightarrow>
                (case content ogTitleElement of
                   None \<Rightarrow> trim (title doc)
                 | Some c \<Rightarrow> if c \<noteq> [] then trim c else trim (title doc))))\<close>

text \<open>\<open>e.innerText?.trim()\<close> when it is truthy, for an element that may be absent.\<close>

definition trimmedText :: "element option \<Rightarrow> jsstring list" where
  "trimmedText e =
     (case e of
        None \<Rightarrow> []
      | Some el \<Rightarrow>
          (case innerText el of
             None \<Rightarrow> []
           | Some t \<Rightarrow> if trim t \<noteq> [] then [trim t] else []))"

text \<open>\<open>e.content.trim()\<close> when \<open>e.content\<close> is truthy.\<close>

definition trimmedContent :: "element option \<Rightarrow> jsstring list" where
  "trimmedContent e =
     (case e of
        None \<Rightarrow> []
      | Some el \<Rightarrow>
          (case content el of
             None \<Rightarrow> []
           | Some c \<Rightarrow> if c \<noteq> [] then [trim c] else []))"

text \<open>Strategy 1: the brand of the first JSON-LD script; whatever is thrown there is
  ignored.\<close>

definition structuredDataCandidates :: "page \<Rightarrow> jsstring list" where
  \<open>structuredDataCandidates doc =
     (case querySelector doc (js ''script[type="application/ld+json"]'') of
        None \<Rightarrow> []
      | Some structuredDataScript \<Rightarrow>
          (case parsed structuredDataScript of
             None \<Rightarrow> []
           | Some data \<Rightarrow>
               (case getProp data (js ''brand'') of
                  Inl e \<Rightarrow> []
                | Inr b \<Rightarrow>
                    (case orElse (optProp b (js ''name'')) b of
                       JStr brand \<Rightarrow> if trim brand \<noteq> [] then [trim brand] else []
                     | _ \<Rightarrow> []))))\<close>

text \<open>
  Strategy 2: for every supported key, the pattern \<open>\bkey\b\<close> with the flag \<open>i\<close>
  is built from the key and matched against the lowered title. The constructor of
  regular expressions is a parameter, \<open>RegExp\<close>: it gives the pattern that a source
  text denotes, or \<open>None\<close> when it throws a syntax error, which nothing here catches.
\<close>

fun titleCandidates ::
  "(jsstring \<Rightarrow> rx option) \<Rightarrow> jsstring \<Rightarrow> jsstring list \<Rightarrow> error + jsstring list" where
  "titleCandidates RegExp productTitle [] = Inr []"
| "titleCandidates RegExp productTitle (brand # brands) =
     (case RegExp ([92, 98] @ brand @ [92, 98]) of
        None \<Rightarrow> Inl SyntaxError
      | Some brandRegex \<Rightarrow>
          thenE (titleCandidates RegExp productTitle brands) (\<lambda>more.
            if test brandRegex (toLowerCase productTitle)
            then (case exec brandRegex (toLowerCase productTitle) of
                    None \<Rightarrow> Inr more
                  | Some m \<Rightarrow>
                      Inr (take (length (snd m)) (drop (fst m) productTitle) # more))
            else Inr more))"

text \<open>Strategy 5: the value next to a label that starts with "brand".\<close>

definition labelValue :: "element \<Rightarrow> jsstring list" where
  "labelValue label =
     (case innerText label of
        None \<Rightarrow> []
      | Some t \<Rightarrow>
          if startsWith (toLowerCase (trim t)) (js ''brand'')
          then
            (let v0 = nextElementSibling label;
                 v1 = (case v0 of
                         Some v \<Rightarrow> Some v
                       | None \<Rightarrow> (case parentElement label of
                                    None \<Rightarrow> None
                                  | Some parent \<Rightarrow> nextElementSibling parent));
                 v2 = (case v1 of
                         None \<Rightarrow> None
                       | Some v \<Rightarrow> (case firstElementChild v of
                                     None \<Rightarrow> Some v
                                   | Some child \<Rightarrow> Some child))
             in trimmedText v2)
          else [])"

text \<open>Strategy 6: the second-to-last link of the breadcrumb; its \<open>innerText\<close> is
  read without a guard.\<close>

definition breadcrumbCandidates :: "page \<Rightarrow> error + jsstring list" where
  \<open>breadcrumbCandidates doc =
     (let breadcrumbItems = querySelectorAll doc (js ''[class*="breadcrumb"] a'')
      in if length breadcrumbItems > 1
         then
           (case innerText (breadcrumbItems ! (length breadcrumbItems - 2)) of
              None \<Rightarrow> Inl TypeError
            | Some t \<Rightarrow>
                let brandCandidate = trim t
                in if length brandCandidate > 2
                      \<and> toLowerCase brandCandidate \<notin> set [js ''home'', js ''products'', js ''shop'']
                   then Inr [brandCandidate]
                   else Inr [])
         else Inr [])\<close>

text \<open>Strategy 8: the domain, when \<open>extractMainDomain\<close> gives a non-empty label.\<close>

definition domainCandidates :: "page \<Rightarrow> jsstring list" where
  "domainCandidates doc =
     (case extractMainDomain (hostname doc) of
        None \<Rightarrow> []
      | Some domain \<Rightarrow> if domain \<noteq> [] then [domain] else [])"

definition findAllBrandCandidates ::
  "(jsstring \<Rightarrow> rx option) \<Rightarrow> jsstring list \<Rightarrow> page \<Rightarrow> error + jsstring list" where
  \<open>findAllBrandCandidates RegExp supportedBrandsArray doc =
     (let c1 = structuredDataCandidates doc;
          productTitle = extractProductTitle doc
      in thenE (if productTitle \<noteq> []
                then titleCandidates RegExp productTitle supportedBrandsArray
                else Inr []) (\<lambda>c2.
           let c3 = trimmedContent
                      (querySelector doc
                         (js ''meta[property="product:brand"], meta[property="og:brand"]''));
               c4 = concat (map (\<lambda>selector. trimmedText (querySelector doc selector))
                      [js ''[itemprop="brand"] [itemprop="name"]'', js ''[itemprop="brand"]'',
                       js ''[data-product-brand]'', js ''.product-brand'',
                       js ''[class*="brand-name"]'']);
               c5 = concat (map labelValue
                      (querySelectorAll doc (js ''span, dt, th, b, strong'')))
           in thenE (breadcrumbCandidates doc) (\<lambda>c6.
                let c7 = trimmedContent (querySelector doc (js ''meta[property="og:site_name"]''));
                    c8 = domainCandidates doc
                in Inr (c1 @ c2 @ c3 @ c4 @ c5 @ c6 @ c7 @ c8))))\<close>

record productInfo =
  pi_brand :: jsstring
  pi_title :: jsstring
  pi_cashback :: nat

record detection =
  isSupported :: bool
  isSpecialMerchant :: bool
  productInfo :: productInfo

definition detectBrandOnPage ::
  "(jsstring \<Rightarrow> rx option) \<Rightarrow> brands_state \<Rightarrow> page \<Rightarrow> error + detection option" where
  "detectBrandOnPage RegExp brands doc =
     thenE (findAllBrandCandidates RegExp (SUPPORTED_BRANDS_ARRAY brands) doc) (\<lambda>candidates.
       case determineBestBrandByVotes (SUPPORTED_BRANDS_MAP brands) (Some candidates) of
         Some bestBrand \<Rightarrow>
           Inr (Some \<lparr>isSupported = True, isSpecialMerchant = False,
                      productInfo = \<lparr>pi_brand = name bestBrand,
                                      pi_title = extractProductTitle doc,
                                      pi_cashback = cashback bestBrand\<rparr>\<rparr>)
       | None \<Rightarrow> Inr None)"

section \<open>The runner and the background handler\<close>






section \<open>The content script: \<open>startDetection\<close>\<close>








section \<open>Specification of the score\<close>

text \<open>
  The ten signals of a document and their weighted sum. \<open>signalResults\<close> is the
  signal set of a document on which every check returns; it is the exception of the
  first check that throws otherwise.
\<close>

record signalSet =
  sig_structuredData :: bool
  sig_price :: bool
  sig_urlPattern :: bool
  sig_images :: bool
  sig_reviews :: bool
  sig_description :: bool
  sig_breadcrumbs :: bool
  sig_shipping :: bool
  sig_metadata :: bool
  sig_selectors :: bool

definition weightedSum :: "signalSet \<Rightarrow> nat" where
  "weightedSum s =
     (if sig_structuredData s then 40 else 0)
     + (if sig_price s then 25 else 0)
     + (if sig_urlPattern s then 25 else 0)
     + (if sig_images s then 20 else 0)
     + (if sig_reviews s then 15 else 0)
     + (if sig_description s then 15 else 0)
     + (if sig_breadcrumbs s then 15 else 0)
     + (if sig_shipping s then 15 else 0)
     + (if sig_metadata s then 10 else 0)
     + (if sig_selectors s then 10 else 0)"

definition signalResults :: "page \<Rightarrow> error + signalSet" where
  "signalResults doc =
     thenE (detectPrice doc) (\<lambda>pr.
     thenE (detectReviews doc) (\<lambda>rv.
     thenE (detectProductMetadata doc) (\<lambda>md.
     thenE (detectBreadcrumbs doc) (\<lambda>bc.
     thenE (detectShippingInfo doc) (\<lambda>sh.
       Inr \<lparr>sig_structuredData =
               (sd_found (detectStructuredData doc) \<and> sd_hasOffer (detectStructuredData doc)),
             sig_price = price_found pr,
             sig_urlPattern = detectProductUrlPattern doc,
             sig_images = detectProductImages doc,
             sig_reviews = rv,
             sig_description = detectProductDescription doc,
             sig_breadcrumbs = bc,
             sig_shipping = sh,
             sig_metadata = md,
             sig_selectors = detectProductSelectors doc\<rparr>)))))"

text \<open>The names of the ten checks, in the order in which \<open>isProductPage\<close> calls them,
  and the weights in the same order.\<close>

definition allChecks :: "string list" where
  "allChecks =
     [''detectStructuredData'', ''detectPrice'', ''detectProductImages'',
      ''detectProductUrlPattern'', ''detectReviews'', ''detectProductDescription'',
      ''detectProductMetadata'', ''detectProductSelectors'', ''detectBreadcrumbs'',
      ''detectShippingInfo'']"

definition weights :: "nat list" where
  "weights = [40, 25, 20, 25, 15, 15, 10, 10, 15, 15]"

text \<open>The sum of the weights that a list of choices selects.\<close>

definition subsetSum :: "bool list \<Rightarrow> nat" where
  "subsetSum bs = sum_list (map (\<lambda>(w, b). if b then w else 0) (zip weights bs))"

text \<open>The ten \<open>if\<close> blocks of \<open>isProductPage\<close> as a table: method, outcome of
  its test, weight and name of the signal.\<close>

definition checkList :: "page \<Rightarrow> (string \<times> (error + bool) \<times> nat \<times> string) list" where
  "checkList doc =
     [(''detectStructuredData'',
         Inr (sd_found (detectStructuredData doc) \<and> sd_hasOffer (detectStructuredData doc)),
         40, ''structuredData''),
      (''detectPrice'', passed price_found (detectPrice doc), 25, ''price''),
      (''detectProductImages'', Inr (detectProductImages doc), 20, ''productImages''),
      (''detectProductUrlPattern'', Inr (detectProductUrlPattern doc), 25, ''productUrl''),
      (''detectReviews'', detectReviews doc, 15, ''reviews''),
      (''detectProductDescription'', Inr (detectProductDescription doc), 15, ''description''),
      (''detectProductMetadata'', detectProductMetadata doc, 10, ''metadata''),
      (''detectProductSelectors'', Inr (detectProductSelectors doc), 10, ''selectors''),
      (''detectBreadcrumbs'', detectBreadcrumbs doc, 15, ''breadcrumbs''),
      (''detectShippingInfo'', detectShippingInfo doc, 15, ''shippingInfo'')]"

section \<open>Instances for the witnesses\<close>

text \<open>
  The constructor of regular expressions on the sources \<open>\bw\b\<close> whose \<open>w\<close> has
  only letters, digits and underscores, which is all that the witnesses construct.
\<close>

definition wordRegExp :: "jsstring \<Rightarrow> rx option" where
  "wordRegExp source =
     (if length source \<ge> 4 \<and> take 2 source = [92, 98]
         \<and> drop (length source - 2) source = [92, 98]
         \<and> list_all isWordChar (take (length source - 4) (drop 2 source))
      then Some (Seq Bnd (Seq (lit_ci (take (length source - 4) (drop 2 source))) Bnd))
      else None)"

text \<open>An element with the given markup and text and nothing else, and a script
  element with the given outcome of \<open>JSON.parse\<close>.\<close>

definition plainElement :: "jsstring \<Rightarrow> jsstring \<Rightarrow> element" where
  "plainElement html text =
     Element html (Some text) text None None 0 0 (\<lambda>s. []) (\<lambda>s. None) None None None"

definition scriptElement :: "jsval option \<Rightarrow> element" where
  "scriptElement v =
     Element [] (Some []) [] None v 0 0 (\<lambda>s. []) (\<lambda>s. None) None None None"

text \<open>An element that is not an HTML element, an icon of a vector graphic: it has no
  \<open>innerText\<close>.\<close>

definition svgElement :: "jsstring \<Rightarrow> element" where
  "svgElement html =
     Element html None [] None None 0 0 (\<lambda>s. []) (\<lambda>s. None) None None None"

text \<open>
  A product page: the text "Add to Cart $49.99", a product address, and two JSON-LD
  scripts, the first with malformed JSON, the second a product with an offer.
\<close>

definition productPage :: page where
  \<open>productPage =
     \<lparr>body = Some (plainElement [] (js ''Add to Cart $49.99'')),
      title = js ''Nike Air Max 90'',
      querySelectorAll =
        (\<lambda>s. if s = js ''script[type="application/ld+json"]''
             then [scriptElement None,
                   scriptElement
                     (Some (JObj [(js ''@type'', JStr (js ''Product'')),
                                  (js ''offers'', JObj [(js ''price'', JNum 49)])]))]
             else []),
      href = js ''https://www.nike.com/product/widget-123'',
      hostname = js ''www.nike.com''\<rparr>\<close>

text \<open>The same page without the scripts.\<close>

definition plainProductPage :: page where
  "plainProductPage = productPage\<lparr>querySelectorAll := (\<lambda>s. [])\<rparr>"

text \<open>The product page without any word or markup of an action button.\<close>

definition gatelessPage :: page where
  "gatelessPage = productPage\<lparr>body := Some (plainElement [] (js ''Widget $49.99''))\<rparr>"

text \<open>The product page on which the first element with a breadcrumb class is an
  icon.\<close>

definition iconBreadcrumbPage :: page where
  \<open>iconBreadcrumbPage =
     productPage\<lparr>querySelectorAll :=
       (\<lambda>s. if s = js ''[class*="breadcrumb"]''
            then [svgElement (js ''<svg class="breadcrumb-icon"></svg>'')]
            else querySelectorAll productPage s)\<rparr>\<close>

text \<open>A brand list with two brands, and a content script that has shown nothing yet.\<close>

definition brandList :: jsstring where
  "brandList = js ''Brand'' @ [10] @ js ''Nike'' @ [10] @ js ''Under Armour'' @ [10]"



text \<open>A product page on which every one of the ten signals is present.\<close>

definition fullPage :: page where
  \<open>fullPage =
     productPage\<lparr>
       body := Some (plainElement [] (js ''Add to Cart $49.99 reviews sku free shipping'')),
       querySelectorAll :=
         (\<lambda>s. if s = js ''[class*="thumbnail"], [class*="thumb-nav"], [data-thumbnail]''
              then [plainElement (js ''<div class="thumbnail"></div>'') []]
              else if s = js ''[class*="product-description"]''
              then [plainElement (js ''<div class="product-description"></div>'')
                      (replicate 51 97)]
              else if s = js ''.product-options, .product-variants''
              then [plainElement (js ''<div class="product-options"></div>'') []]
              else if s = js ''[class*="breadcrumb"]''
              then [plainElement (js ''<nav class="breadcrumb"></nav>'') (js ''Home > Shoes'')]
              else querySelectorAll productPage s)\<rparr>\<close>

text \<open>The signals of the product page.\<close>

definition productSignals :: signalSet where
  "productSignals =
     \<lparr>sig_structuredData = True, sig_price = True, sig_urlPattern = True,
      sig_images = False, sig_reviews = False, sig_description = False,
      sig_breadcrumbs = False, sig_shipping = False, sig_metadata = False,
      sig_selectors = False\<rparr>"

text \<open>The registry of the brand list, and the detection of its first brand on the
  product page.\<close>

definition nikeRegistry :: brands_state where
  "nikeRegistry =
     \<lparr>SUPPORTED_BRANDS_MAP =
        [(js ''nike'', \<lparr>name = js ''Nike'', cashback = 33\<rparr>),
         (js ''underarmour'', \<lparr>name = js ''Under Armour'', cashback = 33\<rparr>)],
      SUPPORTED_BRANDS_ARRAY = [js ''nike'', js ''underarmour'']\<rparr>"

definition nikeDetection :: detection where
  "nikeDetection =
     \<lparr>isSupported = True, isSpecialMerchant = False,
      productInfo = \<lparr>pi_brand = js ''Nike'', pi_title = js ''Nike Air Max 90'',
                      pi_cashback = 33\<rparr>\<rparr>"

section \<open>Normalization is total and idempotent\<close>

lemma dropWhile_none: "\<forall>x\<in>set xs. \<not> P x \<Longrightarrow> dropWhile P xs = xs"
  by (cases xs) auto

lemma trim_no_space: "\<forall>c\<in>set s. \<not> isWhiteSpace c \<Longrightarrow> trim s = s"
  by (simp add: trim_def dropWhile_none)


lemma normalizeBrand_JStr:
  "normalizeBrand (JStr s) =
     filter (\<lambda>c. \<not> isWhiteSpace c) (filter (\<lambda>c. \<not> isBrandSymbol c) (toLowerCase s))"
  by (simp add: trim_no_space toLowerCase_def)

declare normalizeBrand.simps(1) [simp del]








section \<open>The \<open>Map\<close> of the registry\<close>

lemma map_of_Map_set: "map_of (Map_set m k v) = (map_of m)(k \<mapsto> v)"
  by (induction m k v rule: Map_set.induct) auto

lemma keys_Map_set:
  "map fst (Map_set m k v) = (if k \<in> fst ` set m then map fst m else map fst m @ [k])"
  by (induction m k v rule: Map_set.induct) auto

lemma distinct_Map_set: "distinct (map fst m) \<Longrightarrow> distinct (map fst (Map_set m k v))"
  by (simp add: keys_Map_set)

lemma foldl_Map_set_get:
  "map_of (foldl (\<lambda>m (k, v). Map_set m k v) m es) = map_of m ++ map_of (rev es)"
proof (induction es arbitrary: m)
  case Nil
  show ?case by simp
next
  case (Cons e es)
  obtain k v where e: "e = (k, v)" by (cases e)
  have "map_of (Map_set m k v) ++ map_of (rev es) = map_of m ++ ([k \<mapsto> v] ++ map_of (rev es))"
    by (auto simp: map_of_Map_set map_add_def fun_eq_iff split: option.splits)
  then show ?case using Cons.IH [of "Map_set m k v"] by (simp add: e)
qed

lemma foldl_Map_set_distinct:
  "distinct (map fst m) \<Longrightarrow> distinct (map fst (foldl (\<lambda>m (k, v). Map_set m k v) m es))"
proof (induction es arbitrary: m)
  case Nil
  then show ?case by simp
next
  case (Cons e es)
  obtain k v where e: "e = (k, v)" by (cases e)
  show ?case using Cons.IH [of "Map_set m k v"] Cons.prems by (simp add: e distinct_Map_set)
qed

lemma Map_get_new_Map: "Map_get (new_Map es) k = map_of (rev es) k"
  by (simp add: Map_get_def new_Map_def foldl_Map_set_get)

lemma distinct_new_Map: "distinct (Map_keys (new_Map es))"
  by (simp add: Map_keys_def new_Map_def foldl_Map_set_distinct)

text \<open>The registry that \<open>loadBrands\<close> builds is such a map: its keys are distinct,
  and the array of the supported brands lists them in the order of the map.\<close>

lemma loadBrands_distinct: "distinct (Map_keys (SUPPORTED_BRANDS_MAP (loadBrands payload)))"
proof (cases payload)
  case None
  then show ?thesis by (simp add: loadBrands_def Map_keys_def)
next
  case (Some csvText)
  then show ?thesis by (simp add: loadBrands_def Let_def distinct_new_Map)
qed

lemma loadBrands_array:
  "SUPPORTED_BRANDS_ARRAY (loadBrands payload) = Map_keys (SUPPORTED_BRANDS_MAP (loadBrands payload))"
proof (cases payload)
  case None
  then show ?thesis by (simp add: loadBrands_def Map_keys_def)
next
  case (Some csvText)
  then show ?thesis by (simp add: loadBrands_def Let_def)
qed

lemma map_of_rev_last:
  "map_of (rev (map (\<lambda>x. (f x, g x)) xs)) k =
     (if k \<in> f ` set xs then Some (g (last (filter (\<lambda>x. f x = k) xs))) else None)"
  by (induction xs rule: rev_induct) auto

section \<open>The tally and the choice of the winner\<close>







lemma fst_voteEntries: "fst ` set (voteEntries cs ks) \<subseteq> set ks"
  by (auto simp: voteEntries_def split: if_splits)


















section \<open>The domain candidate\<close>

text \<open>
  Claim C5. \<open>extractMainDomain\<close> returns the label before the last one, and that
  label is the domain candidate of the page. For \<open>www.underarmour.com\<close> it is
  \<open>underarmour\<close>; for \<open>www.levi.co.uk\<close>, whose public suffix has two labels, it
  is \<open>co\<close> and not the registrable label \<open>levi\<close> that the documentation of the
  function announces.
\<close>

theorem extractMainDomain_second_to_last_label:
  "extractMainDomain (js ''www.levi.co.uk'') = Some (js ''co'')
   \<and> extractMainDomain (js ''www.levi.co.uk'') \<noteq> Some (js ''levi'')
   \<and> domainCandidates (productPage\<lparr>hostname := js ''www.levi.co.uk''\<rparr>) = [js ''co'']
   \<and> extractMainDomain (js ''www.underarmour.com'') = Some (js ''underarmour'')
   \<and> domainCandidates (productPage\<lparr>hostname := js ''www.underarmour.com''\<rparr>)
       = [js ''underarmour'']"
  by (simp add: domainCandidates_def extractMainDomain_def js_def)

section \<open>The scoring pass\<close>

lemma signalCheck_thrown_skip: "thrown st \<noteq> None \<Longrightarrow> signalCheck m out w s st = st"
  by (simp add: signalCheck_def)

lemma signalCheck_Inr:
  "thrown st = None \<Longrightarrow>
   signalCheck m (Inr b) w s st =
     st\<lparr>evaluated := evaluated st @ [m],
        confidenceScore := confidenceScore st + (if b then w else 0),
        signals := signals st @ (if b then [s] else [])\<rparr>"
  by (simp add: signalCheck_def)

lemma signalCheck_Inl:
  "thrown st = None \<Longrightarrow>
   signalCheck m (Inl e) w s st = st\<lparr>evaluated := evaluated st @ [m], thrown := Some e\<rparr>"
  by (simp add: signalCheck_def)

lemma signalCheck_thrown_mono: "thrown st \<noteq> None \<Longrightarrow> thrown (signalCheck m out w s st) \<noteq> None"
  by (simp add: signalCheck_def)

lemma signalCheck_thrown_Inl: "thrown (signalCheck m (Inl e) w s st) \<noteq> None"
  by (simp add: signalCheck_def)

lemma signalResults_Inr:
  "signalResults doc = Inr sigs \<Longrightarrow>
   \<exists>pr rv md bc sh. detectPrice doc = Inr pr \<and> detectReviews doc = Inr rv
      \<and> detectProductMetadata doc = Inr md \<and> detectBreadcrumbs doc = Inr bc
      \<and> detectShippingInfo doc = Inr sh
      \<and> sigs = \<lparr>sig_structuredData =
               (sd_found (detectStructuredData doc) \<and> sd_hasOffer (detectStructuredData doc)),
             sig_price = price_found pr,
             sig_urlPattern = detectProductUrlPattern doc,
             sig_images = detectProductImages doc,
             sig_reviews = rv,
             sig_description = detectProductDescription doc,
             sig_breadcrumbs = bc,
             sig_shipping = sh,
             sig_metadata = md,
             sig_selectors = detectProductSelectors doc\<rparr>"
  unfolding signalResults_def thenE_def
  by (auto split: sum.splits)

lemma scoreSignals_complete:
  assumes "signalResults doc = Inr sigs"
  shows "scoreSignals doc =
           \<lparr>confidenceScore = weightedSum sigs,
            signals =
              (if sig_structuredData sigs then [''structuredData''] else [])
              @ (if sig_price sigs then [''price''] else [])
              @ (if sig_images sigs then [''productImages''] else [])
              @ (if sig_urlPattern sigs then [''productUrl''] else [])
              @ (if sig_reviews sigs then [''reviews''] else [])
              @ (if sig_description sigs then [''description''] else [])
              @ (if sig_metadata sigs then [''metadata''] else [])
              @ (if sig_selectors sigs then [''selectors''] else [])
              @ (if sig_breadcrumbs sigs then [''breadcrumbs''] else [])
              @ (if sig_shipping sigs then [''shippingInfo''] else []),
            evaluated = allChecks, thrown = None\<rparr>"
proof -
  from signalResults_Inr [OF assms] obtain pr rv md bc sh where
    d: "detectPrice doc = Inr pr" "detectReviews doc = Inr rv"
       "detectProductMetadata doc = Inr md" "detectBreadcrumbs doc = Inr bc"
       "detectShippingInfo doc = Inr sh"
    and s: "sigs = \<lparr>sig_structuredData =
               (sd_found (detectStructuredData doc) \<and> sd_hasOffer (detectStructuredData doc)),
             sig_price = price_found pr,
             sig_urlPattern = detectProductUrlPattern doc,
             sig_images = detectProductImages doc,
             sig_reviews = rv,
             sig_description = detectProductDescription doc,
             sig_breadcrumbs = bc,
             sig_shipping = sh,
             sig_metadata = md,
             sig_selectors = detectProductSelectors doc\<rparr>"
    by blast
  show ?thesis
    unfolding scoreSignals_def Let_def d passed_def
    by (simp add: signalCheck_Inr initialScorer_def s weightedSum_def allChecks_def)
qed





lemma isProductPage_run_complete:
  assumes "detectActionButtons doc" "signalResults doc = Inr sigs"
  shows "fst (isProductPage_run doc) = Inr (meetsThreshold (weightedSum sigs))"
    and "confidenceScore (snd (isProductPage_run doc)) = weightedSum sigs"
    and "evaluated (snd (isProductPage_run doc)) = allChecks"
    and "thrown (snd (isProductPage_run doc)) = None"
  using assms(1) scoreSignals_complete [OF assms(2)]
  by (simp_all add: isProductPage_run_def Let_def)


lemma signalCheck_score:
  "\<exists>b. confidenceScore (signalCheck m out w s st) = confidenceScore st + (if b then w else 0)"
proof (cases "thrown st \<noteq> None")
  case True
  then have "confidenceScore (signalCheck m out w s st) = confidenceScore st + (if False then w else 0)"
    by (simp add: signalCheck_def)
  then show ?thesis by blast
next
  case False
  show ?thesis
  proof (cases out)
    case (Inl e)
    then have "confidenceScore (signalCheck m out w s st) = confidenceScore st + (if False then w else 0)"
      using False by (simp add: signalCheck_def)
    then show ?thesis by blast
  next
    case (Inr p)
    then have "confidenceScore (signalCheck m out w s st) = confidenceScore st + (if p then w else 0)"
      using False by (simp add: signalCheck_def)
    then show ?thesis by blast
  qed
qed

lemma scoreSignals_fold:
  "scoreSignals doc = fold (\<lambda>(m, out, w, s). signalCheck m out w s) (checkList doc) initialScorer"
  by (simp add: scoreSignals_def checkList_def Let_def)

lemma fold_score:
  "\<exists>bs. length bs = length cs \<and>
     confidenceScore (fold (\<lambda>(m, out, w, s). signalCheck m out w s) cs st) =
       confidenceScore st
       + sum_list (map (\<lambda>(w, b). if b then w else 0) (zip (map (\<lambda>(m, out, w, s). w) cs) bs))"
proof (induction cs arbitrary: st)
  case Nil
  show ?case by simp
next
  case (Cons c cs)
  obtain m out w s where c: "c = (m, out, w, s)" by (cases c)
  obtain b where b: "confidenceScore (signalCheck m out w s st) = confidenceScore st + (if b then w else 0)"
    using signalCheck_score by blast
  obtain bs where bs: "length bs = length cs"
    "confidenceScore (fold (\<lambda>(m, out, w, s). signalCheck m out w s) cs (signalCheck m out w s st)) =
       confidenceScore (signalCheck m out w s st)
       + sum_list (map (\<lambda>(w, b). if b then w else 0) (zip (map (\<lambda>(m, out, w, s). w) cs) bs))"
    using Cons.IH [of "signalCheck m out w s st"] by blast
  have "length (b # bs) = length (c # cs)" using bs(1) by simp
  moreover have "confidenceScore (fold (\<lambda>(m, out, w, s). signalCheck m out w s) (c # cs) st) =
       confidenceScore st
       + sum_list (map (\<lambda>(w, b). if b then w else 0)
           (zip (map (\<lambda>(m, out, w, s). w) (c # cs)) (b # bs)))"
    using bs(2) b by (simp add: c)
  ultimately show ?case by blast
qed

lemma scoreSignals_subsetSum:
  "\<exists>bs. length bs = 10 \<and> confidenceScore (scoreSignals doc) = subsetSum bs"
proof -
  obtain bs where bs: "length bs = length (checkList doc)"
    "confidenceScore (scoreSignals doc) =
       confidenceScore initialScorer
       + sum_list (map (\<lambda>(w, b). if b then w else 0)
           (zip (map (\<lambda>(m, out, w, s). w) (checkList doc)) bs))"
    using fold_score [of "checkList doc" initialScorer] unfolding scoreSignals_fold by blast
  have w: "map (\<lambda>(m, out, w, s). w) (checkList doc) = weights"
    by (simp add: checkList_def weights_def)
  have "length bs = 10" using bs(1) by (simp add: checkList_def)
  moreover have "confidenceScore (scoreSignals doc) = subsetSum bs"
    using bs(2) by (simp add: w subsetSum_def initialScorer_def)
  ultimately show ?thesis by blast
qed

lemma selected_le:
  "sum_list (map (\<lambda>(w, b). if b then w else 0) (zip ws bs)) \<le> sum_list (ws :: nat list)"
proof (induction ws arbitrary: bs)
  case Nil
  show ?case by simp
next
  case (Cons w ws)
  show ?case
  proof (cases bs)
    case Nil
    then show ?thesis by simp
  next
    case (Cons b bs')
    then show ?thesis using Cons.IH [of bs'] by simp
  qed
qed

lemma selected_dvd:
  "\<forall>w\<in>set ws. d dvd w \<Longrightarrow>
   d dvd sum_list (map (\<lambda>(w, b). if b then w else 0) (zip ws bs)) "
  for d :: nat
proof (induction ws arbitrary: bs)
  case Nil
  show ?case by simp
next
  case (Cons w ws)
  show ?case
  proof (cases bs)
    case Nil
    then show ?thesis by simp
  next
    case (Cons b bs')
    then show ?thesis using Cons.IH [of bs'] Cons.prems by simp
  qed
qed

lemma subsetSum_bounds: "subsetSum bs \<le> 190 \<and> 5 dvd subsetSum bs"
proof -
  have "subsetSum bs \<le> sum_list weights" unfolding subsetSum_def by (rule selected_le)
  moreover have "sum_list weights = 190" by (simp add: weights_def)
  moreover have "5 dvd subsetSum bs"
    unfolding subsetSum_def by (rule selected_dvd) (simp add: weights_def)
  ultimately show ?thesis by simp
qed

lemma multiple_of_five_threshold:
  assumes "5 dvd (n::nat)"
  shows "n \<noteq> 74 \<and> (75 \<le> n \<longleftrightarrow> 70 < n)"
  using assms by presburger

lemma debugTotal_subsetSum: "\<exists>bs. length bs = 10 \<and> debugTotal sc = subsetSum bs"
proof -
  let ?bs = "[sd_found (d_structuredData sc) \<and> sd_hasOffer (d_structuredData sc),
              price_found (d_price sc), d_images sc, d_urlPattern sc, d_reviews sc,
              d_description sc, d_metadata sc, d_selectors sc, d_breadcrumbs sc,
              d_shipping sc]"
  have "length ?bs = 10" by simp
  moreover have "debugTotal sc = subsetSum ?bs"
    by (simp add: debugTotal_def subsetSum_def weights_def)
  ultimately show ?thesis by blast
qed

lemma debugDetection_Inr:
  "debugDetection doc = Inr r \<Longrightarrow>
   \<exists>sc. totalScore r = debugTotal sc \<and> d_actionButtons_found r = detectActionButtons doc
        \<and> isPDP r = (detectActionButtons doc \<and> 75 \<le> debugTotal sc)"
  unfolding debugDetection_def thenE_def Let_def
  by (auto split: sum.splits)

section \<open>The detectors on the pages of the witnesses\<close>

lemmas js_eval = js_def toLowerCase_def lower_unit_def isWhiteSpace_def

lemmas rx_eval = exec_def test_def lit_def lit_ci_def ch_def ci_def plus_def opt_def
  digit_def amount_def currencyPattern_def labelPattern_def pricePatterns_def
  productUrlPatterns_def

lemmas dom_eval = querySelector_def bodyInnerText_def hasContent_def thenE_def passed_def
  plainElement_def scriptElement_def svgElement_def

lemmas page_eval = productPage_def plainProductPage_def gatelessPage_def iconBreadcrumbPage_def

lemmas signal_eval = signalResults_def detectStructuredData_def inspectScript_def
  productRecord_def optProp_def orElse_def detectPrice_def currencyOf_def
  detectProductImages_def detectProductUrlPattern_def detectReviews_def
  detectProductDescription_def detectProductMetadata_def detectProductSelectors_def
  detectBreadcrumbs_def detectShippingInfo_def productMetadata_def reviewIndicators_def
  shippingKeywords_def

lemma productPage_gate: "detectActionButtons productPage"
  by (simp add: detectActionButtons_def actionButtons_def page_eval dom_eval js_eval)

lemma productPage_signals: "signalResults productPage = Inr productSignals"
  by (simp add: productSignals_def signal_eval page_eval dom_eval rx_eval js_eval)











lemma fullPage_gate: "detectActionButtons fullPage"
  by (simp add: detectActionButtons_def actionButtons_def fullPage_def page_eval dom_eval js_eval)

lemma fullPage_signals:
  "signalResults fullPage =
     Inr \<lparr>sig_structuredData = True, sig_price = True, sig_urlPattern = True,
          sig_images = True, sig_reviews = True, sig_description = True,
          sig_breadcrumbs = True, sig_shipping = True, sig_metadata = True,
          sig_selectors = True\<rparr>"
  by (simp add: signal_eval isLargeImage_def hasLongText_def trim_def fullPage_def page_eval
      dom_eval rx_eval js_eval)

section \<open>The brand detector on the pages of the witnesses\<close>

lemmas registry_eval = loadBrands_def brandNames_def trim_def new_Map_def Map_keys_def
  Map_get_def normalizeBrand_JStr isBrandSymbol_def brandList_def

lemmas vote_eval = determineBestBrandByVotes_def tallyVotes_def castVote_def maxStep_def
  Map_keys_def Map_get_def normalizeBrand_JStr isBrandSymbol_def

lemmas brand_eval = findAllBrandCandidates_def structuredDataCandidates_def
  extractProductTitle_def trimmedText_def trimmedContent_def breadcrumbCandidates_def
  domainCandidates_def extractMainDomain_def labelValue_def wordRegExp_def isWordChar_def
  wordBefore_def wordAfter_def optProp_def orElse_def trim_def Let_def

lemma brandList_registry: "loadBrands (Some brandList) = nikeRegistry"
  by (simp add: nikeRegistry_def registry_eval js_eval)

lemma nikeRegistry_fields:
  "SUPPORTED_BRANDS_ARRAY nikeRegistry = [js ''nike'', js ''underarmour'']"
  "SUPPORTED_BRANDS_MAP nikeRegistry =
     [(js ''nike'', \<lparr>name = js ''Nike'', cashback = 33\<rparr>),
      (js ''underarmour'', \<lparr>name = js ''Under Armour'', cashback = 33\<rparr>)]"
  by (simp_all add: nikeRegistry_def)

lemma productPage_title: "extractProductTitle productPage = js ''Nike Air Max 90''"
  by (simp add: brand_eval page_eval dom_eval js_eval)


lemma productPage_candidates:
  "findAllBrandCandidates wordRegExp [js ''nike'', js ''underarmour''] productPage =
     Inr [js ''Nike'', js ''nike'']"
  by (simp add: brand_eval page_eval dom_eval rx_eval js_eval)


lemma nike_vote:
  "determineBestBrandByVotes
     [(js ''nike'', \<lparr>name = js ''Nike'', cashback = 33\<rparr>),
      (js ''underarmour'', \<lparr>name = js ''Under Armour'', cashback = 33\<rparr>)]
     (Some [js ''Nike'', js ''nike'']) = Some \<lparr>name = js ''Nike'', cashback = 33\<rparr>"
  by (simp add: vote_eval js_eval)

lemma productPage_brand:
  "detectBrandOnPage wordRegExp nikeRegistry productPage = Inr (Some nikeDetection)"
  by (simp add: detectBrandOnPage_def nikeRegistry_fields productPage_candidates thenE_def
      nike_vote productPage_title nikeDetection_def)





section \<open>The claims about the scorer\<close>












text \<open>What the claim C10 states fails on a product page with all ten signals: its
  score is 190, above the bound of 180.\<close>

theorem score_can_exceed_180:
  "detectActionButtons fullPage
   \<and> confidenceScore (snd (isProductPage_run fullPage)) = 190
   \<and> \<not> confidenceScore (snd (isProductPage_run fullPage)) \<le> 180"
proof -
  have "confidenceScore (snd (isProductPage_run fullPage)) = 190"
    using isProductPage_run_complete(2) [OF fullPage_gate fullPage_signals]
    by (simp add: weightedSum_def)
  then show ?thesis using fullPage_gate by simp
qed

text \<open>
  Claim C10, amended. When the gate passes, the confidence score is the sum of the
  weights that a choice among the ten weights 40, 25, 20, 25, 15, 15, 10, 10, 15 and 15
  selects: it is at most 190 and divisible by 5, so it is never 74 and the test
  \<open>score >= 75\<close> is the test \<open>score > 70\<close>. The same holds for the total score of
  \<open>debugDetection\<close>.
\<close>

theorem score_is_multiple_of_five_up_to_190:
  "detectActionButtons doc \<Longrightarrow>
     (\<exists>bs. length bs = 10 \<and> confidenceScore (snd (isProductPage_run doc)) = subsetSum bs)
     \<and> confidenceScore (snd (isProductPage_run doc)) \<le> 190
     \<and> 5 dvd confidenceScore (snd (isProductPage_run doc))
     \<and> confidenceScore (snd (isProductPage_run doc)) \<noteq> 74
     \<and> (meetsThreshold (confidenceScore (snd (isProductPage_run doc)))
          \<longleftrightarrow> 70 < confidenceScore (snd (isProductPage_run doc)))
     \<and> (\<forall>r. debugDetection doc = Inr r \<longrightarrow>
           (\<exists>bs. length bs = 10 \<and> totalScore r = subsetSum bs)
           \<and> totalScore r \<le> 190 \<and> 5 dvd totalScore r \<and> totalScore r \<noteq> 74
           \<and> (isPDP r \<longleftrightarrow> 70 < totalScore r))"
proof -
  assume g: "detectActionButtons doc"
  have run: "confidenceScore (snd (isProductPage_run doc)) = confidenceScore (scoreSignals doc)"
    using g by (simp add: isProductPage_run_def Let_def split: option.splits)
  obtain bs where bs: "length bs = 10" "confidenceScore (scoreSignals doc) = subsetSum bs"
    using scoreSignals_subsetSum by blast
  have b: "subsetSum bs \<le> 190" "5 dvd subsetSum bs" using subsetSum_bounds by simp_all
  have t: "subsetSum bs \<noteq> 74 \<and> (75 \<le> subsetSum bs \<longleftrightarrow> 70 < subsetSum bs)"
    using b(2) by (rule multiple_of_five_threshold)
  have first: "(\<exists>bs. length bs = 10 \<and> confidenceScore (snd (isProductPage_run doc)) = subsetSum bs)
     \<and> confidenceScore (snd (isProductPage_run doc)) \<le> 190
     \<and> 5 dvd confidenceScore (snd (isProductPage_run doc))
     \<and> confidenceScore (snd (isProductPage_run doc)) \<noteq> 74
     \<and> (meetsThreshold (confidenceScore (snd (isProductPage_run doc)))
          \<longleftrightarrow> 70 < confidenceScore (snd (isProductPage_run doc)))"
    using bs b t unfolding run meetsThreshold_def by auto
  have second: "\<forall>r. debugDetection doc = Inr r \<longrightarrow>
           (\<exists>bs. length bs = 10 \<and> totalScore r = subsetSum bs)
           \<and> totalScore r \<le> 190 \<and> 5 dvd totalScore r \<and> totalScore r \<noteq> 74
           \<and> (isPDP r \<longleftrightarrow> 70 < totalScore r)"
  proof (intro allI impI)
    fix r
    assume "debugDetection doc = Inr r"
    then obtain sc where sc: "totalScore r = debugTotal sc"
      "isPDP r = (detectActionButtons doc \<and> 75 \<le> debugTotal sc)"
      using debugDetection_Inr by blast
    obtain cs where cs: "length cs = 10" "debugTotal sc = subsetSum cs"
      using debugTotal_subsetSum by blast
    have c: "subsetSum cs \<le> 190" "5 dvd subsetSum cs" using subsetSum_bounds by simp_all
    have u: "subsetSum cs \<noteq> 74 \<and> (75 \<le> subsetSum cs \<longleftrightarrow> 70 < subsetSum cs)"
      using c(2) by (rule multiple_of_five_threshold)
    show "(\<exists>bs. length bs = 10 \<and> totalScore r = subsetSum bs)
           \<and> totalScore r \<le> 190 \<and> 5 dvd totalScore r \<and> totalScore r \<noteq> 74
           \<and> (isPDP r \<longleftrightarrow> 70 < totalScore r)"
      using sc cs c u g by auto
  qed
  from first second show ?thesis by blast
qed

theorem score_is_multiple_of_five_up_to_190_witness:
  "detectActionButtons productPage
   \<and> confidenceScore (snd (isProductPage_run productPage)) = 90
   \<and> (\<exists>bs. length bs = 10 \<and> 90 = subsetSum bs)
   \<and> 5 dvd (90::nat)"
proof -
  have s: "confidenceScore (snd (isProductPage_run productPage)) = 90"
    using isProductPage_run_complete(2) [OF productPage_gate productPage_signals]
    by (simp add: weightedSum_def productSignals_def)
  show ?thesis
    using score_is_multiple_of_five_up_to_190 [OF productPage_gate] productPage_gate
    unfolding s by simp
qed

section \<open>The claims about the registry\<close>

lemma map_of_rev_mem: "map_of (rev es) k = Some v \<Longrightarrow> (k, v) \<in> set es"
  using map_of_SomeD [of "rev es" k v] by simp

lemma loadBrands_entry:
  assumes "Map_get (SUPPORTED_BRANDS_MAP (loadBrands payload)) k = Some b"
  shows "\<exists>csvText n. payload = Some csvText \<and> n \<in> set (brandNames csvText)
           \<and> k = normalizeBrand (JStr n) \<and> b = \<lparr>name = n, cashback = 33\<rparr>"
proof (cases payload)
  case None
  then show ?thesis using assms by (simp add: loadBrands_def Map_get_def)
next
  case (Some csvText)
  let ?es = "map (\<lambda>b. (normalizeBrand (JStr (name b)), b))
               (map (\<lambda>n. \<lparr>name = n, cashback = 33\<rparr>) (brandNames csvText))"
  have "Map_get (new_Map ?es) k = Some b"
    using assms Some by (simp add: loadBrands_def Let_def)
  then have "(k, b) \<in> set ?es" unfolding Map_get_new_Map by (rule map_of_rev_mem)
  then show ?thesis using Some by auto
qed

lemma vote_from_registry:
  "determineBestBrandByVotes R cs = Some b \<Longrightarrow> \<exists>k. Map_get R k = Some b"
  unfolding determineBestBrandByVotes_def Let_def
  by (auto split: option.splits if_splits)

lemma detectBrandOnPage_Some:
  assumes "detectBrandOnPage RegExp brands doc = Inr (Some d)"
  shows "isSupported d \<and>
         (\<exists>k b. Map_get (SUPPORTED_BRANDS_MAP brands) k = Some b
                \<and> pi_brand (productInfo d) = name b \<and> pi_cashback (productInfo d) = cashback b)"
proof -
  from assms obtain cs b where
    v: "determineBestBrandByVotes (SUPPORTED_BRANDS_MAP brands) (Some cs) = Some b"
    and d: "d = \<lparr>isSupported = True, isSpecialMerchant = False,
                productInfo = \<lparr>pi_brand = name b, pi_title = extractProductTitle doc,
                                pi_cashback = cashback b\<rparr>\<rparr>"
    unfolding detectBrandOnPage_def thenE_def
    by (auto split: sum.splits option.splits)
  from vote_from_registry [OF v] obtain k where "Map_get (SUPPORTED_BRANDS_MAP brands) k = Some b"
    by blast
  then show ?thesis using d by auto
qed

text \<open>
  Claim C9. Every record of a registry that \<open>loadBrands\<close> builds has the cashback
  33, whatever the payload holds; so the product information of every successful brand
  detection on such a registry carries the cashback 33.
\<close>

theorem loadBrands_cashback_is_33:
  "(\<forall>k b. Map_get (SUPPORTED_BRANDS_MAP (loadBrands payload)) k = Some b \<longrightarrow> cashback b = 33)
   \<and> (\<forall>RegExp doc d. detectBrandOnPage RegExp (loadBrands payload) doc = Inr (Some d) \<longrightarrow>
         isSupported d \<and> pi_cashback (productInfo d) = 33)"
proof (intro conjI allI impI)
  fix k b
  assume "Map_get (SUPPORTED_BRANDS_MAP (loadBrands payload)) k = Some b"
  then show "cashback b = 33" using loadBrands_entry by fastforce
next
  fix RegExp doc d
  assume a: "detectBrandOnPage RegExp (loadBrands payload) doc = Inr (Some d)"
  from detectBrandOnPage_Some [OF a] obtain k b where
    s: "isSupported d" and m: "Map_get (SUPPORTED_BRANDS_MAP (loadBrands payload)) k = Some b"
    and c: "pi_cashback (productInfo d) = cashback b" by blast
  have "cashback b = 33" using loadBrands_entry [OF m] by fastforce
  then show "isSupported d" and "pi_cashback (productInfo d) = 33" using s c by simp_all
qed

theorem loadBrands_cashback_is_33_witness:
  "Map_get (SUPPORTED_BRANDS_MAP (loadBrands (Some brandList))) (js ''nike'')
     = Some \<lparr>name = js ''Nike'', cashback = 33\<rparr>
   \<and> detectBrandOnPage wordRegExp (loadBrands (Some brandList)) productPage
     = Inr (Some nikeDetection)
   \<and> pi_cashback (productInfo nikeDetection) = 33"
proof -
  have g: "Map_get (SUPPORTED_BRANDS_MAP (loadBrands (Some brandList))) (js ''nike'')
     = Some \<lparr>name = js ''Nike'', cashback = 33\<rparr>"
    by (simp add: brandList_registry nikeRegistry_fields Map_get_def js_def)
  have d: "detectBrandOnPage wordRegExp (loadBrands (Some brandList)) productPage
     = Inr (Some nikeDetection)"
    by (simp add: brandList_registry productPage_brand)
  have "pi_cashback (productInfo nikeDetection) = 33"
    using loadBrands_cashback_is_33 [of "Some brandList"] d by blast
  then show ?thesis using g d by simp
qed

text \<open>What the claim C7 states fails on two payloads. When two lines have the same
  normalized key, the key of the first resolves to the record of the last; and a line
  with a cashback column is taken whole as the name, with the cashback 33.\<close>

theorem loadBrands_round_trip_fails:
  "Map_get (SUPPORTED_BRANDS_MAP
       (loadBrands (Some (js ''Brand'' @ [10] @ js ''Nike'' @ [10] @ js ''NIKE''))))
     (normalizeBrand (JStr (js ''Nike''))) = Some \<lparr>name = js ''NIKE'', cashback = 33\<rparr>
   \<and> SUPPORTED_BRANDS_MAP (loadBrands (Some (js ''Brand,Cashback'' @ [10] @ js ''Nike,5'')))
     = [(js ''nike5'', \<lparr>name = js ''Nike,5'', cashback = 33\<rparr>)]
   \<and> Map_get (SUPPORTED_BRANDS_MAP
       (loadBrands (Some (js ''Brand,Cashback'' @ [10] @ js ''Nike,5''))))
     (normalizeBrand (JStr (js ''Nike''))) \<noteq> Some \<lparr>name = js ''Nike'', cashback = 5\<rparr>"
  by (simp add: registry_eval js_eval)

text \<open>
  Claim C7, amended. The brand names of a payload are its lines after the header,
  trimmed, without double quotes, the empty ones dropped. The normalized key of every
  brand name resolves to a record with the cashback 33 whose name is the last brand name
  with that key: the brand name itself when no other brand name has the same key.
\<close>

theorem loadBrands_round_trip:
  "n \<in> set (brandNames csvText) \<Longrightarrow>
     Map_get (SUPPORTED_BRANDS_MAP (loadBrands (Some csvText))) (normalizeBrand (JStr n)) =
       Some \<lparr>name = last (filter (\<lambda>n'. normalizeBrand (JStr n') = normalizeBrand (JStr n))
                             (brandNames csvText)),
             cashback = 33\<rparr>
     \<and> ((\<forall>n'\<in>set (brandNames csvText).
            normalizeBrand (JStr n') = normalizeBrand (JStr n) \<longrightarrow> n' = n) \<longrightarrow>
          Map_get (SUPPORTED_BRANDS_MAP (loadBrands (Some csvText))) (normalizeBrand (JStr n)) =
            Some \<lparr>name = n, cashback = 33\<rparr>)"
proof -
  assume n: "n \<in> set (brandNames csvText)"
  let ?key = "\<lambda>n. normalizeBrand (JStr n)"
  let ?same = "filter (\<lambda>n'. ?key n' = ?key n) (brandNames csvText)"
  have reg: "SUPPORTED_BRANDS_MAP (loadBrands (Some csvText)) =
      new_Map (map (\<lambda>n. (?key n, \<lparr>name = n, cashback = 33\<rparr>)) (brandNames csvText))"
    by (simp add: loadBrands_def Let_def comp_def)
  have get: "Map_get (SUPPORTED_BRANDS_MAP (loadBrands (Some csvText))) (?key n) =
      Some \<lparr>name = last ?same, cashback = 33\<rparr>"
    unfolding reg Map_get_new_Map map_of_rev_last using n by simp
  have ne: "?same \<noteq> []" using n by (auto simp: filter_empty_conv)
  have "(\<forall>n'\<in>set (brandNames csvText). ?key n' = ?key n \<longrightarrow> n' = n) \<longrightarrow> last ?same = n"
  proof
    assume u: "\<forall>n'\<in>set (brandNames csvText). ?key n' = ?key n \<longrightarrow> n' = n"
    have "last ?same \<in> set ?same" using ne by (rule last_in_set)
    then show "last ?same = n" using u by simp
  qed
  then show ?thesis using get by simp
qed

theorem loadBrands_round_trip_witness:
  "js ''Under Armour'' \<in> set (brandNames brandList)
   \<and> Map_get (SUPPORTED_BRANDS_MAP (loadBrands (Some brandList)))
       (normalizeBrand (JStr (js ''Under Armour'')))
     = Some \<lparr>name = js ''Under Armour'', cashback = 33\<rparr>"
proof -
  have names: "brandNames brandList = [js ''Nike'', js ''Under Armour'']"
    by (simp add: brandNames_def brandList_def trim_def js_eval)
  have m: "js ''Under Armour'' \<in> set (brandNames brandList)"
    by (simp add: names)
  have u: "\<forall>n'\<in>set (brandNames brandList).
      normalizeBrand (JStr n') = normalizeBrand (JStr (js ''Under Armour'')) \<longrightarrow>
      n' = js ''Under Armour''"
    by (simp add: names normalizeBrand_JStr isBrandSymbol_def js_eval)
  show ?thesis using loadBrands_round_trip [OF m] m u by blast
qed

section \<open>The claim about the combined decision\<close>






end
